theory Spec2Isabelle
  imports Main "HOL-Library.Sublist"
begin

section \<open>Python values and their text forms\<close>

text \<open>
  The tool functions of the repository take and return JSON-shaped Python values:
  dictionaries with string keys, lists, strings, numbers, booleans and \<open>None\<close>.
  A dictionary is an association list, in insertion order, since both \<open>json.dumps\<close> and
  \<open>str\<close> print the items in that order. A character is a code point below 256. A float
  is carried as the text that \<open>float.__repr__\<close> prints for it, the three non-finite
  values apart.
\<close>

datatype pyfloat = Finite string | NaN | PosInf | NegInf

datatype json =
    JNull
  | JBool bool
  | JInt int
  | JFloat pyfloat
  | JStr string
  | JList "json list"
  | JDict "(string \<times> json) list"

datatype error = KeyError string | TypeError | AttributeError

type_synonym pydict = "(string \<times> json) list"

subsection \<open>Numbers\<close>

definition digit :: "nat \<Rightarrow> char" where
  "digit n = ''0123456789abcdef'' ! (n mod 16)"

fun str_nat :: "nat \<Rightarrow> string" where
  "str_nat n = (if n < 10 then [digit n] else str_nat (n div 10) @ [digit (n mod 10)])"

declare str_nat.simps [simp del]

definition str_int :: "int \<Rightarrow> string" where
  "str_int i = (if i < 0 then CHR ''-'' # str_nat (nat (- i)) else str_nat (nat i))"

definition float_repr :: "pyfloat \<Rightarrow> string" where
  "float_repr f = (case f of Finite s \<Rightarrow> s | NaN \<Rightarrow> ''nan'' | PosInf \<Rightarrow> ''inf'' | NegInf \<Rightarrow> ''-inf'')"

definition float_json :: "pyfloat \<Rightarrow> string" where
  "float_json f = (case f of Finite s \<Rightarrow> s | NaN \<Rightarrow> ''NaN'' | PosInf \<Rightarrow> ''Infinity''
     | NegInf \<Rightarrow> ''-Infinity'')"

subsection \<open>Strings\<close>

text \<open>\<open>sep.join(xs)\<close>.\<close>

fun join :: "string \<Rightarrow> string list \<Rightarrow> string" where
  "join sep [] = []"
| "join sep [x] = x"
| "join sep (x # y # ys) = x @ sep @ join sep (y # ys)"

text \<open>\<open>str.lower\<close> on code points below 256: the letters A to Z, and the accented capitals
  0xC0 to 0xDE without the multiplication sign 0xD7, move up by 32.\<close>

definition lower_char :: "char \<Rightarrow> char" where
  "lower_char c = (let n = (of_char c :: nat) in
     if (65 \<le> n \<and> n \<le> 90) \<or> (192 \<le> n \<and> n \<le> 222 \<and> n \<noteq> 215) then char_of (n + 32) else c)"

definition lower :: "string \<Rightarrow> string" where
  "lower s = map lower_char s"

text \<open>The string escape of \<open>json.dumps\<close> with its default \<open>ensure_ascii\<close>: quote and
  backslash get a backslash, five control characters a letter, every other character
  outside space to tilde the form \<open>\u00xx\<close>.\<close>

definition json_escape_char :: "char \<Rightarrow> string" where
  "json_escape_char c = (let n = (of_char c :: nat) in
     if n = 0x22 then [CHR 0x5C, CHR 0x22]
     else if n = 0x5C then [CHR 0x5C, CHR 0x5C]
     else if n = 8 then [CHR 0x5C, CHR ''b'']
     else if n = 12 then [CHR 0x5C, CHR ''f'']
     else if n = 10 then [CHR 0x5C, CHR ''n'']
     else if n = 13 then [CHR 0x5C, CHR ''r'']
     else if n = 9 then [CHR 0x5C, CHR ''t'']
     else if 32 \<le> n \<and> n \<le> 126 then [c]
     else [CHR 0x5C, CHR ''u'', CHR ''0'', CHR ''0'', digit (n div 16), digit (n mod 16)])"

definition json_string :: "string \<Rightarrow> string" where
  "json_string s = CHR 0x22 # concat (map json_escape_char s) @ [CHR 0x22]"

text \<open>\<open>repr\<close> of a string: single quotes, unless the string has a single quote and no
  double quote; the chosen quote and the backslash are escaped, tab, newline and return
  get a letter, the other unprintable characters the form \<open>\xNN\<close>.\<close>

definition repr_char :: "char \<Rightarrow> char \<Rightarrow> string" where
  "repr_char q c = (let n = (of_char c :: nat) in
     if c = q \<or> n = 0x5C then [CHR 0x5C, c]
     else if n = 9 then [CHR 0x5C, CHR ''t'']
     else if n = 10 then [CHR 0x5C, CHR ''n'']
     else if n = 13 then [CHR 0x5C, CHR ''r'']
     else if n < 32 \<or> n = 127 \<or> (128 \<le> n \<and> n \<le> 160) \<or> n = 173
       then [CHR 0x5C, CHR ''x'', digit (n div 16), digit (n mod 16)]
     else [c])"

definition repr_str :: "string \<Rightarrow> string" where
  "repr_str s = (let q = (if CHR 0x27 \<in> set s \<and> CHR 0x22 \<notin> set s then CHR 0x22 else CHR 0x27)
     in q # concat (map (repr_char q) s) @ [q])"

subsection \<open>Serialisation\<close>

text \<open>\<open>json.dumps(v)\<close> with the default separators.\<close>

primrec json_dumps :: "json \<Rightarrow> string" where
  "json_dumps JNull = ''null''"
| "json_dumps (JBool b) = (if b then ''true'' else ''false'')"
| "json_dumps (JInt i) = str_int i"
| "json_dumps (JFloat f) = float_json f"
| "json_dumps (JStr s) = json_string s"
| "json_dumps (JList xs) = ''['' @ join '', '' (map json_dumps xs) @ '']''"
| "json_dumps (JDict kvs) =
     ''{'' @ join '', '' (map (\<lambda>kv. json_string (fst kv) @ '': '' @ snd kv)
                             (map (map_prod id json_dumps) kvs)) @ ''}''"

text \<open>\<open>repr(v)\<close>, and \<open>str(v)\<close>, which differs from it on a string only.\<close>

primrec py_repr :: "json \<Rightarrow> string" where
  "py_repr JNull = ''None''"
| "py_repr (JBool b) = (if b then ''True'' else ''False'')"
| "py_repr (JInt i) = str_int i"
| "py_repr (JFloat f) = float_repr f"
| "py_repr (JStr s) = repr_str s"
| "py_repr (JList xs) = ''['' @ join '', '' (map py_repr xs) @ '']''"
| "py_repr (JDict kvs) =
     ''{'' @ join '', '' (map (\<lambda>kv. repr_str (fst kv) @ '': '' @ snd kv)
                             (map (map_prod id py_repr) kvs)) @ ''}''"

definition py_str :: "json \<Rightarrow> string" where
  "py_str v = (case v of JStr s \<Rightarrow> s | _ \<Rightarrow> py_repr v)"

text \<open>\<open>k in s\<close> on strings: \<open>k\<close> occurs in \<open>s\<close> as a contiguous run.\<close>

fun py_in :: "string \<Rightarrow> string \<Rightarrow> bool" where
  "py_in k [] = (k = [])"
| "py_in k (c # s) = (prefix k (c # s) \<or> py_in k s)"

subsection \<open>Dictionary access\<close>

text \<open>\<open>d[k]\<close> raises \<open>KeyError\<close> when the key is missing; on a value that is not a
  dictionary, subscripting with a string raises \<open>TypeError\<close>.\<close>

definition dict_item :: "pydict \<Rightarrow> string \<Rightarrow> error + json" where
  "dict_item d k = (case map_of d k of None \<Rightarrow> Inl (KeyError k) | Some v \<Rightarrow> Inr v)"

definition py_item :: "json \<Rightarrow> string \<Rightarrow> error + json" where
  "py_item v k = (case v of JDict d \<Rightarrow> dict_item d k | _ \<Rightarrow> Inl TypeError)"

text \<open>\<open>d.get(k, default)\<close>; only a dictionary has the method.\<close>

definition dict_get :: "pydict \<Rightarrow> string \<Rightarrow> json \<Rightarrow> json" where
  "dict_get d k dflt = (case map_of d k of None \<Rightarrow> dflt | Some v \<Rightarrow> v)"

definition py_get :: "json \<Rightarrow> string \<Rightarrow> json \<Rightarrow> error + json" where
  "py_get v k dflt = (case v of JDict d \<Rightarrow> Inr (dict_get d k dflt) | _ \<Rightarrow> Inl AttributeError)"

text \<open>
  \<open>list(set(xs))\<close> lists the distinct elements of \<open>xs\<close> in the iteration order of the
  interpreter's hash set, which depends on the hash seed of the process. The functions
  below take that listing as their first argument; \<open>set_listing\<close> is all that Python
  promises of it.
\<close>

definition set_listing :: "(string list \<Rightarrow> string list) \<Rightarrow> bool" where
  "set_listing ls \<longleftrightarrow> (\<forall>xs. distinct (ls xs) \<and> set (ls xs) = set xs)"

section \<open>commander\_agent.py\<close>

definition decide_agents :: "(string list \<Rightarrow> string list) \<Rightarrow> pydict \<Rightarrow> error + json" where
  "decide_agents ls incident =
    (let expected = lower (py_str (dict_get incident ''expected_symptoms'' (JDict [])));
         agents = [];
         agents = (if list_ex (\<lambda>k. py_in k expected)
                        [''latency'', ''timeout'', ''retry'', ''error'', ''circuit'', ''failure'']
                   then agents @ [''logs_agent''] else agents);
         agents = (if list_ex (\<lambda>k. py_in k expected)
                        [''capacity'', ''exhaustion'', ''connections'',
                         ''autoscaling'', ''saturation'', ''usage'']
                   then agents @ [''metrics_agent''] else agents);
         agents = (if list_ex (\<lambda>k. py_in k expected)
                        [''deployment'', ''config'', ''change'', ''release'']
                   then agents @ [''deploy_intelligence_agent''] else agents)
     in case dict_item incident ''incident_id'' of
          Inl e \<Rightarrow> Inl e
        | Inr incident_id \<Rightarrow>
            Inr (JDict [(''incident_id'', incident_id),
                        (''agents_to_call'', JList (map JStr (ls agents)))]))"

definition root_cause_narrative :: string where
  "root_cause_narrative =
     ''Database connection pool exhaustion caused by '' @
     ''application scaling without corresponding database capacity''"

definition long_term_actions :: "string list" where
  "long_term_actions =
     [''Introduce centralized connection pooling'',
      ''Implement capacity-aware autoscaling'',
      ''Add read replicas or shard database workload'']"

definition combined_text :: "json list \<Rightarrow> string" where
  "combined_text agent_findings = join '' '' (map (\<lambda>f. lower (json_dumps f)) agent_findings)"

definition synthesize_verdict :: "pydict \<Rightarrow> json list \<Rightarrow> error + json" where
  "synthesize_verdict incident agent_findings =
    (let text = combined_text agent_findings;
         failure_summary = [];
         immediate = [];
         short_term = [];
         long_term = [];
         root_cause = ''Undetermined'';
         (root_cause, failure_summary, immediate) =
           (if py_in ''connection'' text \<or> py_in ''dbtimeout'' text
            then (root_cause_narrative,
                  failure_summary @ [''Database max_connections limit exceeded''],
                  immediate @ [''Increase database max_connections temporarily''])
            else (root_cause, failure_summary, immediate));
         failure_summary =
           (if py_in ''retry'' text
            then failure_summary @ [''Retry storms amplified database pressure'']
            else failure_summary);
         (failure_summary, short_term) =
           (if py_in ''autoscaling'' text
            then (failure_summary @ [''Application autoscaled without database capacity alignment''],
                  short_term @ [''Reduce application replica count''])
            else (failure_summary, short_term));
         immediate =
           (if py_in ''deployment'' text \<or> py_in ''config'' text
            then immediate @ [''Rollback recent configuration deployment'']
            else immediate);
         long_term = long_term @ long_term_actions
     in case dict_item incident ''incident_id'' of
          Inl e \<Rightarrow> Inl e
        | Inr incident_id \<Rightarrow>
           (case dict_item incident ''severity'' of
              Inl e \<Rightarrow> Inl e
            | Inr severity \<Rightarrow>
                Inr (JDict [(''incident_id'', incident_id),
                            (''severity'', severity),
                            (''root_cause'', JStr root_cause),
                            (''failure_summary'', JList (map JStr failure_summary)),
                            (''recommended_actions'',
                               JDict [(''immediate'', JList (map JStr immediate)),
                                      (''short_term'', JList (map JStr short_term)),
                                      (''long_term'', JList (map JStr long_term))]),
                            (''confidence'', JFloat (Finite ''0.92''))])))"

section \<open>log\_agent.py\<close>

definition log_hypothesis :: string where
  "log_hypothesis =
     ''Log patterns indicate downstream database connection saturation '' @
     ''triggering retries and circuit breaker activation''"

definition analyze_logs :: "(string list \<Rightarrow> string list) \<Rightarrow> pydict \<Rightarrow> error + json" where
  "analyze_logs ls input_payload =
    (case dict_item input_payload ''incident'' of Inl e \<Rightarrow> Inl e | Inr incident \<Rightarrow>
    (case dict_item input_payload ''context'' of Inl e \<Rightarrow> Inl e | Inr context \<Rightarrow>
    (case py_item incident ''incident_id'' of Inl e \<Rightarrow> Inl e | Inr incident_id \<Rightarrow>
    (case py_get context ''logs'' (JDict []) of Inl e \<Rightarrow> Inl e | Inr logs \<Rightarrow>
     (let findings = [];
          evidence = [];
          logs_text = lower (json_dumps logs);
          (findings, evidence) =
            (if py_in ''timeout'' logs_text
             then (findings @ [''Application experienced database timeouts''],
                   evidence @ [(''timeouts'', JBool True)])
             else (findings, evidence));
          (findings, evidence) =
            (if py_in ''retry'' logs_text
             then (findings @ [''Retry storms detected in application logs''],
                   evidence @ [(''retry_storms'', JBool True)])
             else (findings, evidence));
          (findings, evidence) =
            (if py_in ''too many connections'' logs_text
                \<or> py_in ''connection pool exhausted'' logs_text
             then (findings @ [''Database rejected connections due to connection limit''],
                   evidence @ [(''connection_exhaustion'', JBool True)])
             else (findings, evidence));
          (findings, evidence) =
            (if py_in ''circuit'' logs_text
             then (findings @ [''Circuit breakers activated under load''],
                   evidence @ [(''circuit_breaker'', JBool True)])
             else (findings, evidence))
      in Inr (JDict [(''agent'', JStr ''log_agent''),
                     (''incident_id'', incident_id),
                     (''findings'', JList (map JStr (ls findings))),
                     (''evidence'', JDict evidence),
                     (''hypothesis'', JStr log_hypothesis),
                     (''confidence'', JFloat (Finite ''0.93''))]))))))"

section \<open>metrics\_agent.py\<close>

definition metric_hypothesis :: string where
  "metric_hypothesis =
     ''Metrics indicate database capacity constrained by connection limits '' @
     ''rather than compute resources, amplified by application autoscaling''"

definition analyze_metrics :: "(string list \<Rightarrow> string list) \<Rightarrow> pydict \<Rightarrow> error + json" where
  "analyze_metrics ls input_payload =
    (case dict_item input_payload ''incident'' of Inl e \<Rightarrow> Inl e | Inr incident \<Rightarrow>
    (case dict_item input_payload ''context'' of Inl e \<Rightarrow> Inl e | Inr context \<Rightarrow>
    (case py_item incident ''incident_id'' of Inl e \<Rightarrow> Inl e | Inr incident_id \<Rightarrow>
    (case py_get context ''metrics'' (JDict []) of Inl e \<Rightarrow> Inl e | Inr metrics \<Rightarrow>
     (let findings = [];
          evidence = [];
          metrics_text = lower (json_dumps metrics);
          (findings, evidence) =
            (if py_in ''connection'' metrics_text
                \<and> (py_in ''1.0'' metrics_text \<or> py_in ''100'' metrics_text)
             then (findings @ [''Database active connections reached maximum capacity''],
                   evidence @ [(''db_connection_saturation'', JBool True)])
             else (findings, evidence));
          (findings, evidence) =
            (if py_in ''replica'' metrics_text \<or> py_in ''autoscale'' metrics_text
             then (findings @ [''Application autoscaled rapidly under traffic spike''],
                   evidence @ [(''autoscaling_event'', JBool True)])
             else (findings, evidence));
          (findings, evidence) =
            (if py_in ''latency'' metrics_text \<or> py_in ''p99'' metrics_text
                \<or> py_in ''p95'' metrics_text
             then (findings @ [''Latency increased in correlation with load and saturation''],
                   evidence @ [(''latency_spike'', JBool True)])
             else (findings, evidence));
          (findings, evidence) =
            (if py_in ''cpu'' metrics_text \<and> py_in ''low'' metrics_text
             then (findings @ [''Database CPU remained underutilized during incident''],
                   evidence @ [(''cpu_not_bottleneck'', JBool True)])
             else (findings, evidence))
      in Inr (JDict [(''agent'', JStr ''metric_agent''),
                     (''incident_id'', incident_id),
                     (''findings'', JList (map JStr (ls findings))),
                     (''evidence'', JDict evidence),
                     (''hypothesis'', JStr metric_hypothesis),
                     (''confidence'', JFloat (Finite ''0.91''))]))))))"

section \<open>Reading results, and the rule tables of the specification\<close>

text \<open>One tier of \<open>recommended_actions\<close>.\<close>

definition action_tier :: "json \<Rightarrow> string \<Rightarrow> error + json" where
  "action_tier v t = (case py_item v ''recommended_actions'' of Inl e \<Rightarrow> Inl e | Inr a \<Rightarrow> py_item a t)"

text \<open>The shape of the dictionary both extractors return.\<close>

definition findings_record ::
  "string \<Rightarrow> json \<Rightarrow> string list \<Rightarrow> pydict \<Rightarrow> string \<Rightarrow> string \<Rightarrow> json" where
  "findings_record agent incident_id findings evidence hypothesis confidence =
     JDict [(''agent'', JStr agent),
            (''incident_id'', incident_id),
            (''findings'', JList (map JStr findings)),
            (''evidence'', JDict evidence),
            (''hypothesis'', JStr hypothesis),
            (''confidence'', JFloat (Finite confidence))]"

text \<open>The evidence dictionary the specification asks for: the flag of every fired entry,
  set to true.\<close>

definition flags :: "(string \<times> string) list \<Rightarrow> pydict" where
  "flags es = map (\<lambda>e. (snd e, JBool True)) es"

text \<open>The text an extractor searches: the lowercase serialisation of one category of the
  context, the empty dictionary standing in for a missing category.\<close>

definition context_text :: "string \<Rightarrow> pydict \<Rightarrow> string" where
  "context_text cat input_payload =
     (case dict_item input_payload ''context'' of
        Inr (JDict ctx) \<Rightarrow> lower (json_dumps (dict_get ctx cat (JDict [])))
      | _ \<Rightarrow> [])"

text \<open>The extractors' trigger tables as the specification lists them: trigger condition on
  the text, finding string, evidence flag. \<open>fired\<close> keeps the entries whose trigger holds.\<close>

type_synonym trigger_table = "((string \<Rightarrow> bool) \<times> string \<times> string) list"

definition log_table :: trigger_table where
  "log_table =
    [(\<lambda>t. py_in ''timeout'' t,
        ''Application experienced database timeouts'', ''timeouts''),
     (\<lambda>t. py_in ''retry'' t,
        ''Retry storms detected in application logs'', ''retry_storms''),
     (\<lambda>t. py_in ''too many connections'' t \<or> py_in ''connection pool exhausted'' t,
        ''Database rejected connections due to connection limit'', ''connection_exhaustion''),
     (\<lambda>t. py_in ''circuit'' t,
        ''Circuit breakers activated under load'', ''circuit_breaker'')]"

definition metric_table :: trigger_table where
  "metric_table =
    [(\<lambda>t. py_in ''connection'' t \<and> (py_in ''1.0'' t \<or> py_in ''100'' t),
        ''Database active connections reached maximum capacity'', ''db_connection_saturation''),
     (\<lambda>t. py_in ''replica'' t \<or> py_in ''autoscale'' t,
        ''Application autoscaled rapidly under traffic spike'', ''autoscaling_event''),
     (\<lambda>t. py_in ''latency'' t \<or> py_in ''p99'' t \<or> py_in ''p95'' t,
        ''Latency increased in correlation with load and saturation'', ''latency_spike''),
     (\<lambda>t. py_in ''cpu'' t \<and> py_in ''low'' t,
        ''Database CPU remained underutilized during incident'', ''cpu_not_bottleneck'')]"

definition fired :: "trigger_table \<Rightarrow> string \<Rightarrow> (string \<times> string) list" where
  "fired tab t = map snd (filter (\<lambda>e. fst e t) tab)"

text \<open>The synthesizer's rule chain as the specification lists it, one function per output.\<close>

definition rule_root_cause :: "string \<Rightarrow> string" where
  "rule_root_cause t =
     (if py_in ''connection'' t \<or> py_in ''dbtimeout'' t then root_cause_narrative
      else ''Undetermined'')"

definition rule_summary :: "string \<Rightarrow> string list" where
  "rule_summary t =
     (if py_in ''connection'' t \<or> py_in ''dbtimeout'' t
      then [''Database max_connections limit exceeded''] else []) @
     (if py_in ''retry'' t then [''Retry storms amplified database pressure''] else []) @
     (if py_in ''autoscaling'' t
      then [''Application autoscaled without database capacity alignment''] else [])"

definition rule_immediate :: "string \<Rightarrow> string list" where
  "rule_immediate t =
     (if py_in ''connection'' t \<or> py_in ''dbtimeout'' t
      then [''Increase database max_connections temporarily''] else []) @
     (if py_in ''deployment'' t \<or> py_in ''config'' t
      then [''Rollback recent configuration deployment''] else [])"

definition rule_short_term :: "string \<Rightarrow> string list" where
  "rule_short_term t =
     (if py_in ''autoscaling'' t then [''Reduce application replica count''] else [])"

definition verdict_of :: "json \<Rightarrow> json \<Rightarrow> string \<Rightarrow> json" where
  "verdict_of incident_id severity t =
     JDict [(''incident_id'', incident_id),
            (''severity'', severity),
            (''root_cause'', JStr (rule_root_cause t)),
            (''failure_summary'', JList (map JStr (rule_summary t))),
            (''recommended_actions'',
               JDict [(''immediate'', JList (map JStr (rule_immediate t))),
                      (''short_term'', JList (map JStr (rule_short_term t))),
                      (''long_term'', JList (map JStr long_term_actions))]),
            (''confidence'', JFloat (Finite ''0.92''))]"

text \<open>The keywords of the rule chain and of the three selector groups.\<close>

definition rule_keywords :: "string list" where
  "rule_keywords = [''connection'', ''dbtimeout'', ''retry'', ''autoscaling'', ''deployment'', ''config'']"

definition logs_group :: "string list" where
  "logs_group = [''latency'', ''timeout'', ''retry'', ''error'', ''circuit'', ''failure'']"

definition metrics_group :: "string list" where
  "metrics_group = [''capacity'', ''exhaustion'', ''connections'', ''autoscaling'', ''saturation'', ''usage'']"

definition deploy_group :: "string list" where
  "deploy_group = [''deployment'', ''config'', ''change'', ''release'']"

text \<open>The text the selector searches.\<close>

definition symptom_text :: "pydict \<Rightarrow> string" where
  "symptom_text incident = lower (py_str (dict_get incident ''expected_symptoms'' (JDict [])))"

section \<open>Sample inputs\<close>

text \<open>The incident of the demo driver, a payload whose context has neither logs nor metrics,
  and the two records the extractors return for it.\<close>

definition demo_incident :: pydict where
  "demo_incident = [(''incident_id'', JStr ''inc-db-5001''), (''severity'', JStr ''SEV-1'')]"

definition quiet_payload :: pydict where
  "quiet_payload = [(''incident'', JDict demo_incident), (''context'', JDict [])]"

definition quiet_log_record :: json where
  "quiet_log_record =
     JDict [(''agent'', JStr ''log_agent''),
            (''incident_id'', JStr ''inc-db-5001''),
            (''findings'', JList []),
            (''evidence'', JDict []),
            (''hypothesis'', JStr log_hypothesis),
            (''confidence'', JFloat (Finite ''0.93''))]"

definition quiet_metric_record :: json where
  "quiet_metric_record =
     JDict [(''agent'', JStr ''metric_agent''),
            (''incident_id'', JStr ''inc-db-5001''),
            (''findings'', JList []),
            (''evidence'', JDict []),
            (''hypothesis'', JStr metric_hypothesis),
            (''confidence'', JFloat (Finite ''0.91''))]"

text \<open>A payload on which triggers of both extractors fire.\<close>

definition busy_payload :: pydict where
  "busy_payload =
     [(''incident'', JDict demo_incident),
      (''context'', JDict
         [(''logs'', JDict [(''application'', JList [JStr ''DBTimeout, retry 3'', JStr ''Retry 4''])]),
          (''metrics'', JDict [(''database'', JDict [(''connection_usage'', JFloat (Finite ''1.0'')),
                                                     (''cpu'', JStr ''low'')])])])]"

text \<open>The two records the extractors return for \<open>busy_payload\<close> when the set is listed
  in insertion order.\<close>

definition busy_log_record :: json where
  "busy_log_record =
     JDict [(''agent'', JStr ''log_agent''),
            (''incident_id'', JStr ''inc-db-5001''),
            (''findings'', JList [JStr ''Application experienced database timeouts'',
                                  JStr ''Retry storms detected in application logs'']),
            (''evidence'', JDict [(''timeouts'', JBool True), (''retry_storms'', JBool True)]),
            (''hypothesis'', JStr log_hypothesis),
            (''confidence'', JFloat (Finite ''0.93''))]"


text \<open>An incident whose symptoms name a release only, and the plan the selector returns
  for it; the verdict the synthesizer returns for the two records of \<open>quiet_payload\<close>.\<close>

definition release_incident :: pydict where
  "release_incident =
     [(''incident_id'', JStr ''inc-db-5001''),
      (''severity'', JStr ''SEV-1''),
      (''expected_symptoms'', JDict [(''application'', JList [JStr ''Release 4.2 rolled out''])])]"

definition release_plan :: json where
  "release_plan =
     JDict [(''incident_id'', JStr ''inc-db-5001''),
            (''agents_to_call'', JList [JStr ''deploy_intelligence_agent''])]"

definition quiet_verdict :: json where
  "quiet_verdict =
     JDict [(''incident_id'', JStr ''inc-db-5001''),
            (''severity'', JStr ''SEV-1''),
            (''root_cause'', JStr root_cause_narrative),
            (''failure_summary'',
               JList [JStr ''Database max_connections limit exceeded'',
                      JStr ''Application autoscaled without database capacity alignment'']),
            (''recommended_actions'',
               JDict [(''immediate'', JList [JStr ''Increase database max_connections temporarily'']),
                      (''short_term'', JList [JStr ''Reduce application replica count'']),
                      (''long_term'', JList (map JStr long_term_actions))]),
            (''confidence'', JFloat (Finite ''0.92''))]"

text \<open>A second listing of a set: the distinct elements from the last insertion to the
  first. For \<open>busy_payload\<close> it gives the log extractor's findings in the other order.\<close>

definition reversed_listing :: "string list \<Rightarrow> string list" where
  "reversed_listing xs = rev (remdups xs)"

definition busy_log_record_reversed :: json where
  "busy_log_record_reversed =
     JDict [(''agent'', JStr ''log_agent''),
            (''incident_id'', JStr ''inc-db-5001''),
            (''findings'', JList [JStr ''Retry storms detected in application logs'',
                                  JStr ''Application experienced database timeouts'']),
            (''evidence'', JDict [(''timeouts'', JBool True), (''retry_storms'', JBool True)]),
            (''hypothesis'', JStr log_hypothesis),
            (''confidence'', JFloat (Finite ''0.93''))]"

text \<open>The incident of the demo driver of \<open>commander_agent.py\<close>, with its symptoms.\<close>

definition incident_payload :: pydict where
  "incident_payload =
     [(''incident_id'', JStr ''inc-db-5001''),
      (''title'', JStr ''Database connection pool exhaustion''),
      (''category'', JStr ''database_failure''),
      (''severity'', JStr ''SEV-1''),
      (''environment'', JStr ''production''),
      (''affected_services'', JList [JStr ''payment-api'', JStr ''orders-db'']),
      (''expected_symptoms'', JDict
         [(''application'', JList [JStr ''increased latency'', JStr ''database timeouts'',
                                   JStr ''retry storms'']),
          (''database'', JList [JStr ''high connection usage'',
                                JStr ''connection pool exhaustion'']),
          (''infrastructure'', JList [JStr ''autoscaling mismatch''])])]"

section \<open>Basic facts\<close>

lemma py_in_sublist: "py_in k s \<longleftrightarrow> sublist k s"
  by (induction s) (auto simp: sublist_Cons_right)

lemma py_in_append_left: "py_in k s \<Longrightarrow> py_in k (a @ s)"
  by (simp add: py_in_sublist sublist_append)

lemma py_in_append_right: "py_in k s \<Longrightarrow> py_in k (s @ b)"
  by (simp add: py_in_sublist sublist_append)

lemma py_in_Nil: "py_in [] s"
  by (simp add: py_in_sublist)

lemma join_snoc: "join sep (xs @ [y]) = (if xs = [] then y else join sep xs @ sep @ y)"
  by (induction sep xs rule: join.induct) auto


lemma combined_text_snoc:
  "py_in k (combined_text fs) \<Longrightarrow> py_in k (combined_text (fs @ [f]))"
  by (auto simp: combined_text_def join_snoc py_in_append_right py_in_Nil)

lemma set_listing_Nil:
  assumes "set_listing ls"
  shows "ls [] = []"
proof -
  from assms have "set (ls []) = set []"
    unfolding set_listing_def by blast
  then show ?thesis by simp
qed

lemma set_listing_remdups: "set_listing remdups"
  by (simp add: set_listing_def)

subsection \<open>The synthesizer computes the rule chain\<close>

lemma synthesize_verdict_eq:
  "synthesize_verdict incident fs =
     (case dict_item incident ''incident_id'' of Inl e \<Rightarrow> Inl e | Inr i \<Rightarrow>
      (case dict_item incident ''severity'' of Inl e \<Rightarrow> Inl e | Inr s \<Rightarrow>
        Inr (verdict_of i s (combined_text fs))))"
  unfolding synthesize_verdict_def verdict_of_def rule_root_cause_def rule_summary_def
      rule_immediate_def rule_short_term_def Let_def
  by (cases "py_in ''connection'' (combined_text fs) \<or> py_in ''dbtimeout'' (combined_text fs)";
      cases "py_in ''retry'' (combined_text fs)";
      cases "py_in ''autoscaling'' (combined_text fs)";
      cases "py_in ''deployment'' (combined_text fs) \<or> py_in ''config'' (combined_text fs)";
      simp only: if_True if_False append_Nil append_Cons prod.case)

lemma synthesize_verdict_Inr:
  assumes "synthesize_verdict incident fs = Inr v"
  obtains i s where "dict_item incident ''incident_id'' = Inr i"
    and "dict_item incident ''severity'' = Inr s"
    and "v = verdict_of i s (combined_text fs)"
  using assms unfolding synthesize_verdict_eq by (auto split: sum.splits)


lemma verdict_failure_summary:
  "py_item (verdict_of i s t) ''failure_summary'' = Inr (JList (map JStr (rule_summary t)))"
  by (simp add: verdict_of_def py_item_def dict_item_def)

lemma verdict_immediate:
  "action_tier (verdict_of i s t) ''immediate'' = Inr (JList (map JStr (rule_immediate t)))"
  by (simp add: verdict_of_def action_tier_def py_item_def dict_item_def)

lemma verdict_short_term:
  "action_tier (verdict_of i s t) ''short_term'' = Inr (JList (map JStr (rule_short_term t)))"
  by (simp add: verdict_of_def action_tier_def py_item_def dict_item_def)

lemma verdict_long_term:
  "action_tier (verdict_of i s t) ''long_term'' = Inr (JList (map JStr long_term_actions))"
  by (simp add: verdict_of_def action_tier_def py_item_def dict_item_def)

lemma set_if_mono: "(A \<Longrightarrow> B) \<Longrightarrow> set (if A then xs else []) \<subseteq> set (if B then xs else [])"
  by auto

lemma rule_summary_snoc:
  "set (rule_summary (combined_text fs)) \<subseteq> set (rule_summary (combined_text (fs @ [f])))"
  unfolding rule_summary_def set_append
  by (intro Un_mono set_if_mono) (blast intro: combined_text_snoc)+

lemma rule_immediate_snoc:
  "set (rule_immediate (combined_text fs)) \<subseteq> set (rule_immediate (combined_text (fs @ [f])))"
  unfolding rule_immediate_def set_append
  by (intro Un_mono set_if_mono) (blast intro: combined_text_snoc)+

lemma rule_short_term_snoc:
  "set (rule_short_term (combined_text fs)) \<subseteq> set (rule_short_term (combined_text (fs @ [f])))"
  unfolding rule_short_term_def
  by (intro set_if_mono) (blast intro: combined_text_snoc)+

lemma decide_agents_eq:
  "decide_agents ls incident =
     (case dict_item incident ''incident_id'' of Inl e \<Rightarrow> Inl e | Inr i \<Rightarrow>
        Inr (JDict [(''incident_id'', i),
                    (''agents_to_call'', JList (map JStr (ls (
     (if list_ex (\<lambda>k. py_in k (symptom_text incident)) logs_group then [''logs_agent''] else []) @
     (if list_ex (\<lambda>k. py_in k (symptom_text incident)) metrics_group then [''metrics_agent''] else []) @
     (if list_ex (\<lambda>k. py_in k (symptom_text incident)) deploy_group
      then [''deploy_intelligence_agent''] else [])))))]))"
  unfolding decide_agents_def Let_def symptom_text_def logs_group_def metrics_group_def
    deploy_group_def
  by (cases "list_ex (\<lambda>k. py_in k (lower (py_str (dict_get incident ''expected_symptoms'' (JDict [])))))
                        [''latency'', ''timeout'', ''retry'', ''error'', ''circuit'', ''failure'']";
      cases "list_ex (\<lambda>k. py_in k (lower (py_str (dict_get incident ''expected_symptoms'' (JDict [])))))
                        [''capacity'', ''exhaustion'', ''connections'',
                         ''autoscaling'', ''saturation'', ''usage'']";
      cases "list_ex (\<lambda>k. py_in k (lower (py_str (dict_get incident ''expected_symptoms'' (JDict [])))))
                        [''deployment'', ''config'', ''change'', ''release'']";
      simp only: if_True if_False append_Nil append_Cons)

lemma dict_item_missing: "map_of d k = None \<Longrightarrow> dict_item d k = Inl (KeyError k)"
  by (simp add: dict_item_def)

lemma dict_item_present: "map_of d k = Some v \<Longrightarrow> dict_item d k = Inr v"
  by (simp add: dict_item_def)

subsection \<open>The extractors compute their trigger tables\<close>

lemma fired_log_table:
  "fired log_table t =
    (if py_in ''timeout'' t
     then [(''Application experienced database timeouts'', ''timeouts'')] else []) @
    (if py_in ''retry'' t
     then [(''Retry storms detected in application logs'', ''retry_storms'')] else []) @
    (if py_in ''too many connections'' t \<or> py_in ''connection pool exhausted'' t
     then [(''Database rejected connections due to connection limit'', ''connection_exhaustion'')]
     else []) @
    (if py_in ''circuit'' t
     then [(''Circuit breakers activated under load'', ''circuit_breaker'')] else [])"
  unfolding fired_def log_table_def by simp

lemma fired_metric_table:
  "fired metric_table t =
    (if py_in ''connection'' t \<and> (py_in ''1.0'' t \<or> py_in ''100'' t)
     then [(''Database active connections reached maximum capacity'', ''db_connection_saturation'')]
     else []) @
    (if py_in ''replica'' t \<or> py_in ''autoscale'' t
     then [(''Application autoscaled rapidly under traffic spike'', ''autoscaling_event'')] else []) @
    (if py_in ''latency'' t \<or> py_in ''p99'' t \<or> py_in ''p95'' t
     then [(''Latency increased in correlation with load and saturation'', ''latency_spike'')]
     else []) @
    (if py_in ''cpu'' t \<and> py_in ''low'' t
     then [(''Database CPU remained underutilized during incident'', ''cpu_not_bottleneck'')]
     else [])"
  unfolding fired_def metric_table_def by simp

lemma four_rules:
  "(let findings = [];
        evidence = [];
        text = t;
        (findings, evidence) =
          (if a text then (findings @ [f1], evidence @ [(g1, JBool True)])
           else (findings, evidence));
        (findings, evidence) =
          (if b text then (findings @ [f2], evidence @ [(g2, JBool True)])
           else (findings, evidence));
        (findings, evidence) =
          (if c text then (findings @ [f3], evidence @ [(g3, JBool True)])
           else (findings, evidence));
        (findings, evidence) =
          (if d text then (findings @ [f4], evidence @ [(g4, JBool True)])
           else (findings, evidence))
    in F findings evidence) =
   F (map fst (fired [(a, f1, g1), (b, f2, g2), (c, f3, g3), (d, f4, g4)] t))
     (flags (fired [(a, f1, g1), (b, f2, g2), (c, f3, g3), (d, f4, g4)] t))"
  unfolding fired_def Let_def flags_def
  by (cases "a t"; cases "b t"; cases "c t"; cases "d t"; simp)

lemma analyze_logs_eq:
  "analyze_logs ls p =
     (case dict_item p ''incident'' of Inl e \<Rightarrow> Inl e | Inr incident \<Rightarrow>
     (case dict_item p ''context'' of Inl e \<Rightarrow> Inl e | Inr context \<Rightarrow>
     (case py_item incident ''incident_id'' of Inl e \<Rightarrow> Inl e | Inr incident_id \<Rightarrow>
     (case py_get context ''logs'' (JDict []) of Inl e \<Rightarrow> Inl e | Inr logs \<Rightarrow>
        Inr (findings_record ''log_agent'' incident_id
               (ls (map fst (fired log_table (context_text ''logs'' p))))
               (flags (fired log_table (context_text ''logs'' p)))
               log_hypothesis ''0.93'')))))"
  unfolding analyze_logs_def log_table_def four_rules findings_record_def
  by (simp add: context_text_def py_get_def split: sum.splits json.splits)

lemma analyze_metrics_eq:
  "analyze_metrics ls p =
     (case dict_item p ''incident'' of Inl e \<Rightarrow> Inl e | Inr incident \<Rightarrow>
     (case dict_item p ''context'' of Inl e \<Rightarrow> Inl e | Inr context \<Rightarrow>
     (case py_item incident ''incident_id'' of Inl e \<Rightarrow> Inl e | Inr incident_id \<Rightarrow>
     (case py_get context ''metrics'' (JDict []) of Inl e \<Rightarrow> Inl e | Inr metrics \<Rightarrow>
        Inr (findings_record ''metric_agent'' incident_id
               (ls (map fst (fired metric_table (context_text ''metrics'' p))))
               (flags (fired metric_table (context_text ''metrics'' p)))
               metric_hypothesis ''0.91'')))))"
  unfolding analyze_metrics_def metric_table_def four_rules findings_record_def
  by (simp add: context_text_def py_get_def split: sum.splits json.splits)

lemma analyze_logs_Inr:
  assumes "analyze_logs ls p = Inr r"
  obtains i where
    "r = findings_record ''log_agent'' i
               (ls (map fst (fired log_table (context_text ''logs'' p))))
               (flags (fired log_table (context_text ''logs'' p)))
               log_hypothesis ''0.93''"
  using assms unfolding analyze_logs_eq by (auto split: sum.splits)

lemma analyze_metrics_Inr:
  assumes "analyze_metrics ls p = Inr r"
  obtains i where
    "r = findings_record ''metric_agent'' i
               (ls (map fst (fired metric_table (context_text ''metrics'' p))))
               (flags (fired metric_table (context_text ''metrics'' p)))
               metric_hypothesis ''0.91''"
  using assms unfolding analyze_metrics_eq by (auto split: sum.splits)

lemma record_agent: "py_item (findings_record a i f e h c) ''agent'' = Inr (JStr a)"
  by (simp add: findings_record_def py_item_def dict_item_def)





section \<open>Claims\<close>

text \<open>
  C10. The core functions never substitute a default for an identity field: on an incident
  without \<open>incident_id\<close>, \<open>decide_agents\<close> raises \<open>KeyError\<close> and returns nothing; on an
  incident without \<open>incident_id\<close> or without \<open>severity\<close>, \<open>synthesize_verdict\<close> raises
  \<open>KeyError\<close> for the first of the two that is missing and returns no verdict.
\<close>

theorem missing_identity_field_fails:
  "(map_of incident ''incident_id'' = None \<longrightarrow>
      decide_agents ls incident = Inl (KeyError ''incident_id'')) \<and>
   (map_of incident' ''incident_id'' = None \<or> map_of incident' ''severity'' = None \<longrightarrow>
      synthesize_verdict incident' fs =
        Inl (KeyError (if map_of incident' ''incident_id'' = None then ''incident_id''
                       else ''severity'')))"
proof (intro conjI impI)
  assume "map_of incident ''incident_id'' = None"
  then show "decide_agents ls incident = Inl (KeyError ''incident_id'')"
    unfolding decide_agents_eq by (simp only: dict_item_missing sum.case)
next
  assume a: "map_of incident' ''incident_id'' = None \<or> map_of incident' ''severity'' = None"
  show "synthesize_verdict incident' fs =
        Inl (KeyError (if map_of incident' ''incident_id'' = None then ''incident_id''
                       else ''severity''))"
  proof (cases "map_of incident' ''incident_id''")
    case None
    then show ?thesis
      unfolding synthesize_verdict_eq by (simp only: dict_item_missing sum.case if_True refl)
  next
    case (Some i)
    with a have s: "map_of incident' ''severity'' = None" by simp
    from Some have n: "map_of incident' ''incident_id'' \<noteq> None" by simp
    show ?thesis
      unfolding synthesize_verdict_eq
      by (simp only: dict_item_present [OF Some] dict_item_missing [OF s] sum.case n if_False)
  qed
qed

theorem missing_identity_field_fails_witness:
  "map_of [(''severity'', JStr ''SEV-1'')] ''incident_id'' = None \<and>
   decide_agents remdups [(''severity'', JStr ''SEV-1'')] = Inl (KeyError ''incident_id'') \<and>
   map_of [(''incident_id'', JStr ''inc-db-5001'')] ''severity'' = None \<and>
   synthesize_verdict [(''incident_id'', JStr ''inc-db-5001'')] [] = Inl (KeyError ''severity'')"
  using missing_identity_field_fails [of "[(''severity'', JStr ''SEV-1'')]" remdups
      "[(''incident_id'', JStr ''inc-db-5001'')]" "[]"]
  by simp

text \<open>
  C5. \<open>synthesize_verdict\<close> is monotonic in evidence: when it returns a verdict for a list
  of findings records, it also returns one for the list with a further record appended, and
  every entry of \<open>failure_summary\<close> and of each of the three remediation tiers of the first
  verdict is an entry of the same field of the second.
\<close>

theorem synthesize_monotonic:
  assumes "synthesize_verdict incident fs = Inr v"
  shows "\<exists>v' xs ys im im' st st' lt lt'.
     synthesize_verdict incident (fs @ [f]) = Inr v' \<and>
     py_item v ''failure_summary'' = Inr (JList xs) \<and>
     py_item v' ''failure_summary'' = Inr (JList ys) \<and> set xs \<subseteq> set ys \<and>
     action_tier v ''immediate'' = Inr (JList im) \<and>
     action_tier v' ''immediate'' = Inr (JList im') \<and> set im \<subseteq> set im' \<and>
     action_tier v ''short_term'' = Inr (JList st) \<and>
     action_tier v' ''short_term'' = Inr (JList st') \<and> set st \<subseteq> set st' \<and>
     action_tier v ''long_term'' = Inr (JList lt) \<and>
     action_tier v' ''long_term'' = Inr (JList lt') \<and> set lt \<subseteq> set lt'"
proof -
  from assms obtain i s where i: "dict_item incident ''incident_id'' = Inr i"
    and s: "dict_item incident ''severity'' = Inr s"
    and v: "v = verdict_of i s (combined_text fs)"
    by (rule synthesize_verdict_Inr)
  have v': "synthesize_verdict incident (fs @ [f]) = Inr (verdict_of i s (combined_text (fs @ [f])))"
    unfolding synthesize_verdict_eq by (simp only: i s sum.case)
  have 1: "set (map JStr (rule_summary (combined_text fs)))
            \<subseteq> set (map JStr (rule_summary (combined_text (fs @ [f]))))"
    unfolding set_map by (rule image_mono, rule rule_summary_snoc)
  have 2: "set (map JStr (rule_immediate (combined_text fs)))
            \<subseteq> set (map JStr (rule_immediate (combined_text (fs @ [f]))))"
    unfolding set_map by (rule image_mono, rule rule_immediate_snoc)
  have 3: "set (map JStr (rule_short_term (combined_text fs)))
            \<subseteq> set (map JStr (rule_short_term (combined_text (fs @ [f]))))"
    unfolding set_map by (rule image_mono, rule rule_short_term_snoc)
  show ?thesis
    unfolding v v'
    by (intro exI conjI)
       (rule refl verdict_failure_summary verdict_immediate verdict_short_term
          verdict_long_term 1 2 3 subset_refl)+
qed

theorem synthesize_monotonic_witness:
  "synthesize_verdict demo_incident [JDict [(''note'', JStr ''retry'')]] =
     Inr (verdict_of (JStr ''inc-db-5001'') (JStr ''SEV-1'')
            (combined_text [JDict [(''note'', JStr ''retry'')]])) \<and>
   (\<exists>v' xs ys im im' st st' lt lt'.
     synthesize_verdict demo_incident
       ([JDict [(''note'', JStr ''retry'')]] @ [JDict [(''note'', JStr ''autoscaling'')]]) = Inr v' \<and>
     py_item (verdict_of (JStr ''inc-db-5001'') (JStr ''SEV-1'')
            (combined_text [JDict [(''note'', JStr ''retry'')]])) ''failure_summary'' = Inr (JList xs) \<and>
     py_item v' ''failure_summary'' = Inr (JList ys) \<and> set xs \<subseteq> set ys \<and>
     action_tier (verdict_of (JStr ''inc-db-5001'') (JStr ''SEV-1'')
            (combined_text [JDict [(''note'', JStr ''retry'')]])) ''immediate'' = Inr (JList im) \<and>
     action_tier v' ''immediate'' = Inr (JList im') \<and> set im \<subseteq> set im' \<and>
     action_tier (verdict_of (JStr ''inc-db-5001'') (JStr ''SEV-1'')
            (combined_text [JDict [(''note'', JStr ''retry'')]])) ''short_term'' = Inr (JList st) \<and>
     action_tier v' ''short_term'' = Inr (JList st') \<and> set st \<subseteq> set st' \<and>
     action_tier (verdict_of (JStr ''inc-db-5001'') (JStr ''SEV-1'')
            (combined_text [JDict [(''note'', JStr ''retry'')]])) ''long_term'' = Inr (JList lt) \<and>
     action_tier v' ''long_term'' = Inr (JList lt') \<and> set lt \<subseteq> set lt')"
proof -
  have h: "synthesize_verdict demo_incident [JDict [(''note'', JStr ''retry'')]] =
     Inr (verdict_of (JStr ''inc-db-5001'') (JStr ''SEV-1'')
            (combined_text [JDict [(''note'', JStr ''retry'')]]))"
    unfolding synthesize_verdict_eq by (simp add: demo_incident_def dict_item_def)
  show ?thesis
    by (rule conjI [OF h synthesize_monotonic [OF h]])
qed




lemma set_listing_distinct: "set_listing ls \<Longrightarrow> distinct (ls xs)"
  by (simp add: set_listing_def)

lemma set_listing_set: "set_listing ls \<Longrightarrow> set (ls xs) = set xs"
  by (simp add: set_listing_def)


lemma set_listing_rev_remdups: "set_listing (\<lambda>xs. rev (remdups xs))"
  by (simp add: set_listing_def)





lemma fired_nonempty: "(map fst (fired tab t) \<noteq> []) = (fired tab t \<noteq> [])"
  by simp



lemma quiet_logs: "analyze_logs remdups quiet_payload = Inr quiet_log_record"
  by code_simp

lemma quiet_metrics: "analyze_metrics remdups quiet_payload = Inr quiet_metric_record"
  by code_simp

lemma busy_logs: "analyze_logs remdups busy_payload = Inr busy_log_record"
  by code_simp



text \<open>
  C3 as stated fails: the records returned for a payload without logs and metrics carry
  neither \<open>logs_agent\<close> nor \<open>metrics_agent\<close> in their \<open>agent\<close> field.
\<close>

theorem agent_field_counterexample:
  "analyze_logs remdups quiet_payload = Inr quiet_log_record \<and>
   py_item quiet_log_record ''agent'' \<noteq> Inr (JStr ''logs_agent'') \<and>
   analyze_metrics remdups quiet_payload = Inr quiet_metric_record \<and>
   py_item quiet_metric_record ''agent'' \<noteq> Inr (JStr ''metrics_agent'')"
proof -
  have 1: "py_item quiet_log_record ''agent'' \<noteq> Inr (JStr ''logs_agent'')"
    by (simp add: quiet_log_record_def py_item_def dict_item_def)
  have 2: "py_item quiet_metric_record ''agent'' \<noteq> Inr (JStr ''metrics_agent'')"
    by (simp add: quiet_metric_record_def py_item_def dict_item_def)
  show ?thesis
    by (intro conjI quiet_logs quiet_metrics 1 2)
qed

text \<open>
  C3, as amended. The \<open>agent\<close> field of every record of the log extractor is \<open>log_agent\<close> and
  that of every record of the metric extractor is \<open>metric_agent\<close>: the names under which the
  two agents are registered, not the role identifiers \<open>logs_agent\<close> and \<open>metrics_agent\<close> that
  \<open>decide_agents\<close> emits.
\<close>

theorem agent_field:
  assumes "analyze_logs ls p = Inr r" and "analyze_metrics ls p' = Inr r'"
  shows "py_item r ''agent'' = Inr (JStr ''log_agent'') \<and>
         py_item r' ''agent'' = Inr (JStr ''metric_agent'')"
proof -
  from assms(1) obtain i where r:
    "r = findings_record ''log_agent'' i
               (ls (map fst (fired log_table (context_text ''logs'' p))))
               (flags (fired log_table (context_text ''logs'' p)))
               log_hypothesis ''0.93''"
    by (rule analyze_logs_Inr)
  from assms(2) obtain i' where r':
    "r' = findings_record ''metric_agent'' i'
               (ls (map fst (fired metric_table (context_text ''metrics'' p'))))
               (flags (fired metric_table (context_text ''metrics'' p')))
               metric_hypothesis ''0.91''"
    by (rule analyze_metrics_Inr)
  show ?thesis
    unfolding r r' record_agent by (intro conjI refl)
qed

theorem agent_field_witness:
  "analyze_logs remdups quiet_payload = Inr quiet_log_record \<and>
   analyze_metrics remdups quiet_payload = Inr quiet_metric_record \<and>
   py_item quiet_log_record ''agent'' = Inr (JStr ''log_agent'') \<and>
   py_item quiet_metric_record ''agent'' = Inr (JStr ''metric_agent'')"
  using agent_field [OF quiet_logs quiet_metrics] quiet_logs quiet_metrics
  by (intro conjI) (elim conjE, assumption)+

lemma context_text_missing:
  assumes "dict_item p ''context'' = Inr (JDict ctx)" and "map_of ctx cat = None"
  shows "context_text cat p = ''{}''"
  using assms by (simp add: context_text_def dict_get_def lower_def lower_char_def)

lemma fired_log_quiet: "fired log_table ''{}'' = []"
  by code_simp

lemma fired_metric_quiet: "fired metric_table ''{}'' = []"
  by code_simp

lemma flags_Nil: "flags [] = []"
  by (simp add: flags_def)

text \<open>
  C8. Extraction does not raise on a well-formed payload: when the payload has an incident
  dictionary with \<open>incident_id\<close> and a context dictionary, both extractors return a record;
  when the context lacks the category of an extractor, that record has empty findings and
  empty evidence.
\<close>

theorem extract_never_raises:
  assumes "dict_item p ''incident'' = Inr (JDict inc)"
    and "dict_item inc ''incident_id'' = Inr i"
    and "dict_item p ''context'' = Inr (JDict ctx)"
    and "set_listing ls"
  shows "(\<exists>r. analyze_logs ls p = Inr r) \<and> (\<exists>r. analyze_metrics ls p = Inr r) \<and>
         (map_of ctx ''logs'' = None \<longrightarrow>
            analyze_logs ls p = Inr (findings_record ''log_agent'' i [] [] log_hypothesis ''0.93'')) \<and>
         (map_of ctx ''metrics'' = None \<longrightarrow>
            analyze_metrics ls p =
              Inr (findings_record ''metric_agent'' i [] [] metric_hypothesis ''0.91''))"
proof -
  have i: "py_item (JDict inc) ''incident_id'' = Inr i"
    using assms(2) by (simp add: py_item_def)
  have g: "\<And>k. py_get (JDict ctx) k (JDict []) = Inr (dict_get ctx k (JDict []))"
    by (simp add: py_get_def)
  have l: "analyze_logs ls p = Inr (findings_record ''log_agent'' i
               (ls (map fst (fired log_table (context_text ''logs'' p))))
               (flags (fired log_table (context_text ''logs'' p)))
               log_hypothesis ''0.93'')"
    unfolding analyze_logs_eq by (simp only: assms(1,3) i g sum.case)
  have m: "analyze_metrics ls p = Inr (findings_record ''metric_agent'' i
               (ls (map fst (fired metric_table (context_text ''metrics'' p))))
               (flags (fired metric_table (context_text ''metrics'' p)))
               metric_hypothesis ''0.91'')"
    unfolding analyze_metrics_eq by (simp only: assms(1,3) i g sum.case)
  have l0: "analyze_logs ls p = Inr (findings_record ''log_agent'' i [] [] log_hypothesis ''0.93'')"
    if "map_of ctx ''logs'' = None"
    unfolding l context_text_missing [OF assms(3) that] fired_log_quiet
    by (simp only: list.map flags_Nil set_listing_Nil [OF assms(4)])
  have m0: "analyze_metrics ls p =
      Inr (findings_record ''metric_agent'' i [] [] metric_hypothesis ''0.91'')"
    if "map_of ctx ''metrics'' = None"
    unfolding m context_text_missing [OF assms(3) that] fired_metric_quiet
    by (simp only: list.map flags_Nil set_listing_Nil [OF assms(4)])
  show ?thesis
    using l m l0 m0 by blast
qed


theorem extract_never_raises_witness:
  "dict_item quiet_payload ''incident'' = Inr (JDict demo_incident) \<and>
   dict_item demo_incident ''incident_id'' = Inr (JStr ''inc-db-5001'') \<and>
   dict_item quiet_payload ''context'' = Inr (JDict []) \<and>
   set_listing remdups \<and>
   map_of [] ''logs'' = (None :: json option) \<and>
   map_of [] ''metrics'' = (None :: json option) \<and>
   analyze_logs remdups quiet_payload =
     Inr (findings_record ''log_agent'' (JStr ''inc-db-5001'') [] [] log_hypothesis ''0.93'') \<and>
   analyze_metrics remdups quiet_payload =
     Inr (findings_record ''metric_agent'' (JStr ''inc-db-5001'') [] [] metric_hypothesis ''0.91'')"
proof -
  have 1: "dict_item quiet_payload ''incident'' = Inr (JDict demo_incident)"
    by (simp add: quiet_payload_def dict_item_def)
  have 2: "dict_item demo_incident ''incident_id'' = Inr (JStr ''inc-db-5001'')"
    by (simp add: demo_incident_def dict_item_def)
  have 3: "dict_item quiet_payload ''context'' = Inr (JDict [])"
    by (simp add: quiet_payload_def dict_item_def)
  have 4: "map_of [] ''logs'' = (None :: json option)" by simp
  have 5: "map_of [] ''metrics'' = (None :: json option)" by simp
  note t = extract_never_raises [OF 1 2 3 set_listing_remdups]
  from t 4 have 6: "analyze_logs remdups quiet_payload =
     Inr (findings_record ''log_agent'' (JStr ''inc-db-5001'') [] [] log_hypothesis ''0.93'')"
    by blast
  from t 5 have 7: "analyze_metrics remdups quiet_payload =
     Inr (findings_record ''metric_agent'' (JStr ''inc-db-5001'') [] [] metric_hypothesis ''0.91'')"
    by blast
  show ?thesis
    by (intro conjI 1 2 3 4 5 6 7 set_listing_remdups)
qed

lemma analyze_logs_cases':
  "(\<exists>e. \<forall>ls. analyze_logs ls p = Inl e) \<or>
   (\<exists>i. \<forall>ls. analyze_logs ls p = Inr (findings_record ''log_agent'' i
               (ls (map fst (fired log_table (context_text ''logs'' p))))
               (flags (fired log_table (context_text ''logs'' p)))
               log_hypothesis ''0.93''))"
proof (cases "dict_item p ''incident''")
  case (Inl e)
  then show ?thesis unfolding analyze_logs_eq by simp
next
  case inc: (Inr incident)
  show ?thesis
  proof (cases "dict_item p ''context''")
    case (Inl e)
    with inc show ?thesis unfolding analyze_logs_eq by simp
  next
    case ctx: (Inr cx)
    show ?thesis
    proof (cases "py_item incident ''incident_id''")
      case (Inl e)
      with inc ctx show ?thesis unfolding analyze_logs_eq by simp
    next
      case i: (Inr incident_id)
      show ?thesis
      proof (cases "py_get cx ''logs'' (JDict [])")
        case (Inl e)
        with inc ctx i show ?thesis unfolding analyze_logs_eq by simp
      next
        case (Inr v)
        with inc ctx i show ?thesis unfolding analyze_logs_eq
          by (simp only: sum.case) blast
      qed
    qed
  qed
qed

lemma analyze_logs_cases:
  obtains (err) e where "\<And>ls. analyze_logs ls p = Inl e"
  | (ok) i where "\<And>ls. analyze_logs ls p = Inr (findings_record ''log_agent'' i
               (ls (map fst (fired log_table (context_text ''logs'' p))))
               (flags (fired log_table (context_text ''logs'' p)))
               log_hypothesis ''0.93'')"
  using analyze_logs_cases' [of p] by blast

lemma analyze_metrics_cases':
  "(\<exists>e. \<forall>ls. analyze_metrics ls p = Inl e) \<or>
   (\<exists>i. \<forall>ls. analyze_metrics ls p = Inr (findings_record ''metric_agent'' i
               (ls (map fst (fired metric_table (context_text ''metrics'' p))))
               (flags (fired metric_table (context_text ''metrics'' p)))
               metric_hypothesis ''0.91''))"
proof (cases "dict_item p ''incident''")
  case (Inl e)
  then show ?thesis unfolding analyze_metrics_eq by simp
next
  case inc: (Inr incident)
  show ?thesis
  proof (cases "dict_item p ''context''")
    case (Inl e)
    with inc show ?thesis unfolding analyze_metrics_eq by simp
  next
    case ctx: (Inr cx)
    show ?thesis
    proof (cases "py_item incident ''incident_id''")
      case (Inl e)
      with inc ctx show ?thesis unfolding analyze_metrics_eq by simp
    next
      case i: (Inr incident_id)
      show ?thesis
      proof (cases "py_get cx ''metrics'' (JDict [])")
        case (Inl e)
        with inc ctx i show ?thesis unfolding analyze_metrics_eq by simp
      next
        case (Inr v)
        with inc ctx i show ?thesis unfolding analyze_metrics_eq
          by (simp only: sum.case) blast
      qed
    qed
  qed
qed

lemma analyze_metrics_cases:
  obtains (err) e where "\<And>ls. analyze_metrics ls p = Inl e"
  | (ok) i where "\<And>ls. analyze_metrics ls p = Inr (findings_record ''metric_agent'' i
               (ls (map fst (fired metric_table (context_text ''metrics'' p))))
               (flags (fired metric_table (context_text ''metrics'' p)))
               metric_hypothesis ''0.91'')"
  using analyze_metrics_cases' [of p] by blast

text \<open>
  C9 as stated fails. On \<open>busy_payload\<close> two triggers of the log extractor fire; two runs
  that differ only in the listing of the hash set return records whose findings lists hold
  the same two strings in different orders, so the two output records are not identical.
\<close>

theorem findings_order_counterexample:
  "set_listing remdups \<and> set_listing reversed_listing \<and>
   analyze_logs remdups busy_payload = Inr busy_log_record \<and>
   analyze_logs reversed_listing busy_payload = Inr busy_log_record_reversed \<and>
   busy_log_record \<noteq> busy_log_record_reversed"
proof -
  have 1: "set_listing reversed_listing"
    by (simp add: set_listing_def reversed_listing_def)
  have 2: "analyze_logs reversed_listing busy_payload = Inr busy_log_record_reversed"
    by code_simp
  have 3: "busy_log_record \<noteq> busy_log_record_reversed"
    by (simp add: busy_log_record_def busy_log_record_reversed_def)
  show ?thesis
    by (intro conjI set_listing_remdups 1 busy_logs 2 3)
qed

text \<open>
  C9, as amended. An extractor is a function of its payload and of the listing of the hash
  set. Two runs on the same payload, each with its own listing, fail with the same error or
  return records that agree in agent, incident id, evidence, hypothesis and confidence and
  whose findings hold the same strings, without duplicates in either; where the two listings
  order the fired findings alike, as they do within one process, the two results are
  identical.
\<close>

theorem extract_deterministic:
  assumes "set_listing ls1" and "set_listing ls2"
  shows "((\<exists>e. analyze_logs ls1 p = Inl e \<and> analyze_logs ls2 p = Inl e) \<or>
          (\<exists>i f1 f2 ev.
             analyze_logs ls1 p = Inr (findings_record ''log_agent'' i f1 ev log_hypothesis ''0.93'') \<and>
             analyze_logs ls2 p = Inr (findings_record ''log_agent'' i f2 ev log_hypothesis ''0.93'') \<and>
             distinct f1 \<and> distinct f2 \<and> set f1 = set f2)) \<and>
         ((\<exists>e. analyze_metrics ls1 p = Inl e \<and> analyze_metrics ls2 p = Inl e) \<or>
          (\<exists>i f1 f2 ev.
             analyze_metrics ls1 p =
               Inr (findings_record ''metric_agent'' i f1 ev metric_hypothesis ''0.91'') \<and>
             analyze_metrics ls2 p =
               Inr (findings_record ''metric_agent'' i f2 ev metric_hypothesis ''0.91'') \<and>
             distinct f1 \<and> distinct f2 \<and> set f1 = set f2)) \<and>
         (ls1 (map fst (fired log_table (context_text ''logs'' p))) =
            ls2 (map fst (fired log_table (context_text ''logs'' p)))
          \<longrightarrow> analyze_logs ls1 p = analyze_logs ls2 p) \<and>
         (ls1 (map fst (fired metric_table (context_text ''metrics'' p))) =
            ls2 (map fst (fired metric_table (context_text ''metrics'' p)))
          \<longrightarrow> analyze_metrics ls1 p = analyze_metrics ls2 p)"
proof -
  have d: "\<And>xs. distinct (ls1 xs) \<and> distinct (ls2 xs) \<and> set (ls1 xs) = set (ls2 xs)"
    using assms by (simp add: set_listing_distinct set_listing_set)
  have l: "(\<exists>e. analyze_logs ls1 p = Inl e \<and> analyze_logs ls2 p = Inl e) \<or>
          (\<exists>i f1 f2 ev.
             analyze_logs ls1 p = Inr (findings_record ''log_agent'' i f1 ev log_hypothesis ''0.93'') \<and>
             analyze_logs ls2 p = Inr (findings_record ''log_agent'' i f2 ev log_hypothesis ''0.93'') \<and>
             distinct f1 \<and> distinct f2 \<and> set f1 = set f2)"
  proof (cases p rule: analyze_logs_cases)
    case (err e)
    then show ?thesis by blast
  next
    case (ok i)
    show ?thesis
      by (rule disjI2, intro exI conjI) (rule ok d [THEN conjunct1] d [THEN conjunct2, THEN conjunct1]
          d [THEN conjunct2, THEN conjunct2])+
  qed
  have m: "(\<exists>e. analyze_metrics ls1 p = Inl e \<and> analyze_metrics ls2 p = Inl e) \<or>
          (\<exists>i f1 f2 ev.
             analyze_metrics ls1 p =
               Inr (findings_record ''metric_agent'' i f1 ev metric_hypothesis ''0.91'') \<and>
             analyze_metrics ls2 p =
               Inr (findings_record ''metric_agent'' i f2 ev metric_hypothesis ''0.91'') \<and>
             distinct f1 \<and> distinct f2 \<and> set f1 = set f2)"
  proof (cases p rule: analyze_metrics_cases)
    case (err e)
    then show ?thesis by blast
  next
    case (ok i)
    show ?thesis
      by (rule disjI2, intro exI conjI) (rule ok d [THEN conjunct1] d [THEN conjunct2, THEN conjunct1]
          d [THEN conjunct2, THEN conjunct2])+
  qed
  have l': "analyze_logs ls1 p = analyze_logs ls2 p"
    if "ls1 (map fst (fired log_table (context_text ''logs'' p))) =
        ls2 (map fst (fired log_table (context_text ''logs'' p)))"
  proof (cases p rule: analyze_logs_cases)
    case (err e)
    then show ?thesis by simp
  next
    case (ok i)
    show ?thesis unfolding ok by (simp only: that)
  qed
  have m': "analyze_metrics ls1 p = analyze_metrics ls2 p"
    if "ls1 (map fst (fired metric_table (context_text ''metrics'' p))) =
        ls2 (map fst (fired metric_table (context_text ''metrics'' p)))"
  proof (cases p rule: analyze_metrics_cases)
    case (err e)
    then show ?thesis by simp
  next
    case (ok i)
    show ?thesis unfolding ok by (simp only: that)
  qed
  show ?thesis
    using l' m' by (intro conjI impI l m)
qed

lemma quiet_fired:
  "map fst (fired log_table (context_text ''logs'' quiet_payload)) = []"
  "map fst (fired metric_table (context_text ''metrics'' quiet_payload)) = []"
  by code_simp+

theorem extract_deterministic_witness:
  "set_listing remdups \<and> set_listing reversed_listing \<and>
   ((\<exists>e. analyze_logs remdups busy_payload = Inl e \<and>
         analyze_logs reversed_listing busy_payload = Inl e) \<or>
    (\<exists>i f1 f2 ev.
       analyze_logs remdups busy_payload =
         Inr (findings_record ''log_agent'' i f1 ev log_hypothesis ''0.93'') \<and>
       analyze_logs reversed_listing busy_payload =
         Inr (findings_record ''log_agent'' i f2 ev log_hypothesis ''0.93'') \<and>
       distinct f1 \<and> distinct f2 \<and> set f1 = set f2)) \<and>
   ((\<exists>e. analyze_metrics remdups busy_payload = Inl e \<and>
         analyze_metrics reversed_listing busy_payload = Inl e) \<or>
    (\<exists>i f1 f2 ev.
       analyze_metrics remdups busy_payload =
         Inr (findings_record ''metric_agent'' i f1 ev metric_hypothesis ''0.91'') \<and>
       analyze_metrics reversed_listing busy_payload =
         Inr (findings_record ''metric_agent'' i f2 ev metric_hypothesis ''0.91'') \<and>
       distinct f1 \<and> distinct f2 \<and> set f1 = set f2)) \<and>
   remdups (map fst (fired log_table (context_text ''logs'' quiet_payload))) =
     reversed_listing (map fst (fired log_table (context_text ''logs'' quiet_payload))) \<and>
   analyze_logs remdups quiet_payload = analyze_logs reversed_listing quiet_payload \<and>
   remdups (map fst (fired metric_table (context_text ''metrics'' quiet_payload))) =
     reversed_listing (map fst (fired metric_table (context_text ''metrics'' quiet_payload))) \<and>
   analyze_metrics remdups quiet_payload = analyze_metrics reversed_listing quiet_payload"
proof -
  have r: "set_listing reversed_listing"
    by (simp add: set_listing_def reversed_listing_def)
  note b = extract_deterministic [OF set_listing_remdups r, of busy_payload]
  note q = extract_deterministic [OF set_listing_remdups r, of quiet_payload]
  have 1: "remdups (map fst (fired log_table (context_text ''logs'' quiet_payload))) =
     reversed_listing (map fst (fired log_table (context_text ''logs'' quiet_payload)))"
    unfolding quiet_fired by (simp add: reversed_listing_def)
  have 2: "remdups (map fst (fired metric_table (context_text ''metrics'' quiet_payload))) =
     reversed_listing (map fst (fired metric_table (context_text ''metrics'' quiet_payload)))"
    unfolding quiet_fired by (simp add: reversed_listing_def)
  from q 1 have 3: "analyze_logs remdups quiet_payload = analyze_logs reversed_listing quiet_payload"
    by blast
  from q 2 have 4:
    "analyze_metrics remdups quiet_payload = analyze_metrics reversed_listing quiet_payload"
    by blast
  show ?thesis
    by (intro conjI set_listing_remdups r b [THEN conjunct1] b [THEN conjunct2, THEN conjunct1]
        1 2 3 4)
qed

lemma distinct_set_single: "distinct xs \<Longrightarrow> set xs = {x} \<Longrightarrow> xs = [x]"
  by (cases xs) (auto simp: subset_singleton_iff)

lemma role_names_differ:
  "''logs_agent'' \<noteq> ''metrics_agent''"
  "''logs_agent'' \<noteq> ''deploy_intelligence_agent''"
  "''metrics_agent'' \<noteq> ''deploy_intelligence_agent''"
  by simp_all

lemma roles_set:
  "set ((if a then [''logs_agent''] else []) @ (if b then [''metrics_agent''] else []) @
        (if c then [''deploy_intelligence_agent''] else []))
     \<subseteq> {''logs_agent'', ''metrics_agent'', ''deploy_intelligence_agent''}"
  by (cases a; cases b; cases c; simp)

lemma roles_logs:
  "(''logs_agent'' \<in> set ((if a then [''logs_agent''] else []) @
        (if b then [''metrics_agent''] else []) @
        (if c then [''deploy_intelligence_agent''] else []))) = a"
  by (cases a; cases b; cases c; simp)

lemma roles_metrics:
  "(''metrics_agent'' \<in> set ((if a then [''logs_agent''] else []) @
        (if b then [''metrics_agent''] else []) @
        (if c then [''deploy_intelligence_agent''] else []))) = b"
  by (cases a; cases b; cases c; simp)

lemma roles_deploy:
  "(''deploy_intelligence_agent'' \<in> set ((if a then [''logs_agent''] else []) @
        (if b then [''metrics_agent''] else []) @
        (if c then [''deploy_intelligence_agent''] else []))) = c"
  by (cases a; cases b; cases c; simp)

lemma plan_agents:
  "py_item (JDict [(''incident_id'', i), (''agents_to_call'', JList xs)]) ''agents_to_call''
     = Inr (JList xs)"
  by (simp add: py_item_def dict_item_def)

text \<open>
  C4. For every incident that has an \<open>incident_id\<close>, \<open>decide_agents\<close> returns a plan with that
  id whose \<open>agents_to_call\<close> lists distinct roles out of \<open>logs_agent\<close>, \<open>metrics_agent\<close> and
  \<open>deploy_intelligence_agent\<close>. The groups fire independently: a role is listed iff a keyword
  of its own group occurs in the lowercase text of \<open>expected_symptoms\<close>, so a text with words of
  two groups yields both roles, and a text with \<open>release\<close> and no keyword of the other two
  groups yields \<open>deploy_intelligence_agent\<close> alone.
\<close>

theorem decide_agents_roles:
  assumes "set_listing ls" and "dict_item incident ''incident_id'' = Inr i"
  shows "\<exists>roles.
           decide_agents ls incident =
             Inr (JDict [(''incident_id'', i), (''agents_to_call'', JList (map JStr roles))]) \<and>
           distinct roles \<and>
           set roles \<subseteq> {''logs_agent'', ''metrics_agent'', ''deploy_intelligence_agent''} \<and>
           (''logs_agent'' \<in> set roles)
              = list_ex (\<lambda>k. py_in k (symptom_text incident)) logs_group \<and>
           (''metrics_agent'' \<in> set roles)
              = list_ex (\<lambda>k. py_in k (symptom_text incident)) metrics_group \<and>
           (''deploy_intelligence_agent'' \<in> set roles)
              = list_ex (\<lambda>k. py_in k (symptom_text incident)) deploy_group \<and>
           (py_in ''release'' (symptom_text incident) \<and>
            \<not> list_ex (\<lambda>k. py_in k (symptom_text incident)) logs_group \<and>
            \<not> list_ex (\<lambda>k. py_in k (symptom_text incident)) metrics_group
            \<longrightarrow> roles = [''deploy_intelligence_agent''])"
proof -
  define a where "a = list_ex (\<lambda>k. py_in k (symptom_text incident)) logs_group"
  define b where "b = list_ex (\<lambda>k. py_in k (symptom_text incident)) metrics_group"
  define c where "c = list_ex (\<lambda>k. py_in k (symptom_text incident)) deploy_group"
  define xs where "xs = (if a then [''logs_agent''] else []) @
        (if b then [''metrics_agent''] else []) @
        (if c then [''deploy_intelligence_agent''] else [])"
  have 1: "decide_agents ls incident =
      Inr (JDict [(''incident_id'', i), (''agents_to_call'', JList (map JStr (ls xs)))])"
    unfolding decide_agents_eq xs_def a_def b_def c_def by (simp only: assms(2) sum.case)
  have 2: "distinct (ls xs)"
    using assms(1) by (rule set_listing_distinct)
  have s: "set (ls xs) = set xs"
    using assms(1) by (rule set_listing_set)
  have 3: "set (ls xs) \<subseteq> {''logs_agent'', ''metrics_agent'', ''deploy_intelligence_agent''}"
    unfolding s unfolding xs_def by (rule roles_set)
  have 4: "(''logs_agent'' \<in> set (ls xs)) = a"
    unfolding s unfolding xs_def by (rule roles_logs)
  have 5: "(''metrics_agent'' \<in> set (ls xs)) = b"
    unfolding s unfolding xs_def by (rule roles_metrics)
  have 6: "(''deploy_intelligence_agent'' \<in> set (ls xs)) = c"
    unfolding s unfolding xs_def by (rule roles_deploy)
  have 7: "ls xs = [''deploy_intelligence_agent'']"
    if "py_in ''release'' (symptom_text incident) \<and> \<not> a \<and> \<not> b"
  proof -
    from that have "c" unfolding c_def deploy_group_def by simp
    with 3 4 5 6 that have "set (ls xs) = {''deploy_intelligence_agent''}" by blast
    with 2 show ?thesis by (rule distinct_set_single)
  qed
  show ?thesis
    using 1 2 3 4 5 6 7 unfolding a_def b_def c_def by blast
qed

lemma release_text:
  "py_in ''release'' (symptom_text release_incident) \<and>
   \<not> list_ex (\<lambda>k. py_in k (symptom_text release_incident)) logs_group \<and>
   \<not> list_ex (\<lambda>k. py_in k (symptom_text release_incident)) metrics_group"
  by code_simp

lemma incident_payload_text:
  "list_ex (\<lambda>k. py_in k (symptom_text incident_payload)) logs_group \<and>
   list_ex (\<lambda>k. py_in k (symptom_text incident_payload)) metrics_group"
  by code_simp

theorem decide_agents_roles_witness:
  "set_listing remdups \<and>
   dict_item release_incident ''incident_id'' = Inr (JStr ''inc-db-5001'') \<and>
   py_in ''release'' (symptom_text release_incident) \<and>
   \<not> list_ex (\<lambda>k. py_in k (symptom_text release_incident)) logs_group \<and>
   \<not> list_ex (\<lambda>k. py_in k (symptom_text release_incident)) metrics_group \<and>
   decide_agents remdups release_incident = Inr release_plan \<and>
   dict_item incident_payload ''incident_id'' = Inr (JStr ''inc-db-5001'') \<and>
   list_ex (\<lambda>k. py_in k (symptom_text incident_payload)) logs_group \<and>
   list_ex (\<lambda>k. py_in k (symptom_text incident_payload)) metrics_group \<and>
   (\<exists>roles. decide_agents remdups incident_payload =
        Inr (JDict [(''incident_id'', JStr ''inc-db-5001''),
                    (''agents_to_call'', JList (map JStr roles))]) \<and>
      distinct roles \<and> ''logs_agent'' \<in> set roles \<and> ''metrics_agent'' \<in> set roles)"
proof -
  have 1: "dict_item release_incident ''incident_id'' = Inr (JStr ''inc-db-5001'')"
    by (simp add: release_incident_def dict_item_def)
  have 2: "dict_item incident_payload ''incident_id'' = Inr (JStr ''inc-db-5001'')"
    by (simp add: incident_payload_def dict_item_def)
  from decide_agents_roles [OF set_listing_remdups 1] release_text
  obtain roles where "decide_agents remdups release_incident =
      Inr (JDict [(''incident_id'', JStr ''inc-db-5001''),
                  (''agents_to_call'', JList (map JStr roles))])"
    and "roles = [''deploy_intelligence_agent'']"
    by blast
  then have 3: "decide_agents remdups release_incident = Inr release_plan"
    by (simp add: release_plan_def)
  from decide_agents_roles [OF set_listing_remdups 2] incident_payload_text
  have 4: "\<exists>roles. decide_agents remdups incident_payload =
        Inr (JDict [(''incident_id'', JStr ''inc-db-5001''),
                    (''agents_to_call'', JList (map JStr roles))]) \<and>
      distinct roles \<and> ''logs_agent'' \<in> set roles \<and> ''metrics_agent'' \<in> set roles"
    by blast
  show ?thesis
    using set_listing_remdups 1 2 3 4 release_text incident_payload_text by blast
qed










lemma narrative_determined: "Inr (JStr root_cause_narrative) \<noteq> (Inr (JStr ''Undetermined'') :: error + json)"
  by (simp add: root_cause_narrative_def)



lemma quiet_synthesis:
  "synthesize_verdict demo_incident [quiet_log_record, quiet_metric_record] = Inr quiet_verdict"
  by code_simp

lemma quiet_verdict_root_cause:
  "py_item quiet_verdict ''root_cause'' = Inr (JStr root_cause_narrative)"
  by (simp add: quiet_verdict_def py_item_def dict_item_def)


text \<open>
  C1 as stated fails. On a payload without logs and metrics no trigger fires and both
  extractors return records with empty findings and empty evidence; given these two records,
  \<open>synthesize_verdict\<close> returns a verdict whose \<open>root_cause\<close> is not \<open>Undetermined\<close> and whose
  \<open>failure_summary\<close> is not empty.
\<close>

theorem scenario_B_counterexample:
  "analyze_logs remdups quiet_payload = Inr quiet_log_record \<and>
   analyze_metrics remdups quiet_payload = Inr quiet_metric_record \<and>
   py_item quiet_log_record ''findings'' = Inr (JList []) \<and>
   py_item quiet_log_record ''evidence'' = Inr (JDict []) \<and>
   py_item quiet_metric_record ''findings'' = Inr (JList []) \<and>
   py_item quiet_metric_record ''evidence'' = Inr (JDict []) \<and>
   synthesize_verdict demo_incident [quiet_log_record, quiet_metric_record] = Inr quiet_verdict \<and>
   py_item quiet_verdict ''root_cause'' \<noteq> Inr (JStr ''Undetermined'') \<and>
   py_item quiet_verdict ''failure_summary'' \<noteq> Inr (JList [])"
proof -
  have 1: "py_item quiet_log_record ''findings'' = Inr (JList [])"
    by (simp add: quiet_log_record_def py_item_def dict_item_def)
  have 2: "py_item quiet_log_record ''evidence'' = Inr (JDict [])"
    by (simp add: quiet_log_record_def py_item_def dict_item_def)
  have 3: "py_item quiet_metric_record ''findings'' = Inr (JList [])"
    by (simp add: quiet_metric_record_def py_item_def dict_item_def)
  have 4: "py_item quiet_metric_record ''evidence'' = Inr (JDict [])"
    by (simp add: quiet_metric_record_def py_item_def dict_item_def)
  have 5: "py_item quiet_verdict ''root_cause'' \<noteq> Inr (JStr ''Undetermined'')"
    unfolding quiet_verdict_root_cause by (rule narrative_determined)
  have 6: "py_item quiet_verdict ''failure_summary'' \<noteq> Inr (JList [])"
    by (simp add: quiet_verdict_def py_item_def dict_item_def)
  show ?thesis
    by (intro conjI quiet_logs quiet_metrics 1 2 3 4 quiet_synthesis 5 6)
qed

lemma no_keyword_rules:
  assumes "\<not> list_ex (\<lambda>k. py_in k t) rule_keywords"
  shows "rule_root_cause t = ''Undetermined''" and "rule_summary t = []"
    and "rule_immediate t = []" and "rule_short_term t = []"
proof -
  from assms have n: "\<not> py_in ''connection'' t" "\<not> py_in ''dbtimeout'' t" "\<not> py_in ''retry'' t"
    "\<not> py_in ''autoscaling'' t" "\<not> py_in ''deployment'' t" "\<not> py_in ''config'' t"
    unfolding rule_keywords_def by (simp_all only: list_ex_Nil_iff list_ex_Cons_iff simp_thms de_Morgan_disj)
  show "rule_root_cause t = ''Undetermined''"
    unfolding rule_root_cause_def by (simp only: n simp_thms if_False)
  show "rule_summary t = []"
    unfolding rule_summary_def by (simp only: n simp_thms if_False append_Nil)
  show "rule_immediate t = []"
    unfolding rule_immediate_def by (simp only: n simp_thms if_False append_Nil)
  show "rule_short_term t = []"
    unfolding rule_short_term_def by (simp only: n simp_thms if_False append_Nil)
qed

text \<open>
  C1, as amended. When the combined lowercase serialisation of the findings records contains
  none of the keywords of the rule chain, as for an empty object per agent, and the incident
  has \<open>incident_id\<close> and \<open>severity\<close>, the verdict has \<open>root_cause\<close> \<open>Undetermined\<close>, an empty
  \<open>failure_summary\<close>, empty \<open>immediate\<close> and \<open>short_term\<close> tiers, and exactly the three fixed
  \<open>long_term\<close> entries.
\<close>

theorem scenario_B_without_keywords:
  assumes "dict_item incident ''incident_id'' = Inr i"
    and "dict_item incident ''severity'' = Inr s"
    and "\<not> list_ex (\<lambda>k. py_in k (combined_text fs)) rule_keywords"
  shows "synthesize_verdict incident fs =
     Inr (JDict [(''incident_id'', i),
                 (''severity'', s),
                 (''root_cause'', JStr ''Undetermined''),
                 (''failure_summary'', JList []),
                 (''recommended_actions'',
                    JDict [(''immediate'', JList []),
                           (''short_term'', JList []),
                           (''long_term'',
                              JList [JStr ''Introduce centralized connection pooling'',
                                     JStr ''Implement capacity-aware autoscaling'',
                                     JStr ''Add read replicas or shard database workload''])]),
                 (''confidence'', JFloat (Finite ''0.92''))])"
  unfolding synthesize_verdict_eq verdict_of_def no_keyword_rules [OF assms(3)] long_term_actions_def
  by (simp only: assms(1,2) sum.case list.map)

lemma empty_objects_text:
  "\<not> list_ex (\<lambda>k. py_in k (combined_text [JDict [], JDict []])) rule_keywords"
  by code_simp

theorem scenario_B_without_keywords_witness:
  "dict_item demo_incident ''incident_id'' = Inr (JStr ''inc-db-5001'') \<and>
   dict_item demo_incident ''severity'' = Inr (JStr ''SEV-1'') \<and>
   \<not> list_ex (\<lambda>k. py_in k (combined_text [JDict [], JDict []])) rule_keywords \<and>
   synthesize_verdict demo_incident [JDict [], JDict []] =
     Inr (JDict [(''incident_id'', JStr ''inc-db-5001''),
                 (''severity'', JStr ''SEV-1''),
                 (''root_cause'', JStr ''Undetermined''),
                 (''failure_summary'', JList []),
                 (''recommended_actions'',
                    JDict [(''immediate'', JList []),
                           (''short_term'', JList []),
                           (''long_term'',
                              JList [JStr ''Introduce centralized connection pooling'',
                                     JStr ''Implement capacity-aware autoscaling'',
                                     JStr ''Add read replicas or shard database workload''])]),
                 (''confidence'', JFloat (Finite ''0.92''))])"
proof -
  have 1: "dict_item demo_incident ''incident_id'' = Inr (JStr ''inc-db-5001'')"
    by (simp add: demo_incident_def dict_item_def)
  have 2: "dict_item demo_incident ''severity'' = Inr (JStr ''SEV-1'')"
    by (simp add: demo_incident_def dict_item_def)
  show ?thesis
    by (intro conjI 1 2 empty_objects_text scenario_B_without_keywords [OF 1 2 empty_objects_text])
qed


end
